theory Spec2Isabelle
  imports Complex_Main
begin

section \<open>Numbers and strings of the host language\<close>

text \<open>
  The program is JavaScript. Its numbers are IEEE doubles; the model keeps the value
  \<open>NaN\<close>, on which the program's truthiness tests depend, and idealises every other
  double as the exact real it stands for (no rounding, no overflow to an infinity, no
  negative zero). Reading an array past its end or reading a property that was never set
  gives \<open>undefined\<close>, which is falsy and turns into \<open>NaN\<close> in arithmetic, exactly as
  \<open>NaN\<close> itself: the model uses \<open>NaN\<close> for both.
\<close>

datatype jsnum = NaN | Num real

instantiation jsnum :: "{plus, minus, uminus, times, inverse}"
begin

fun plus_jsnum :: "jsnum \<Rightarrow> jsnum \<Rightarrow> jsnum" where
  "plus_jsnum (Num x) (Num y) = Num (x + y)"
| "plus_jsnum _ _ = NaN"

fun minus_jsnum :: "jsnum \<Rightarrow> jsnum \<Rightarrow> jsnum" where
  "minus_jsnum (Num x) (Num y) = Num (x - y)"
| "minus_jsnum _ _ = NaN"

fun uminus_jsnum :: "jsnum \<Rightarrow> jsnum" where
  "uminus_jsnum (Num x) = Num (- x)"
| "uminus_jsnum NaN = NaN"

fun times_jsnum :: "jsnum \<Rightarrow> jsnum \<Rightarrow> jsnum" where
  "times_jsnum (Num x) (Num y) = Num (x * y)"
| "times_jsnum _ _ = NaN"

text \<open>Division by zero gives an infinity or \<open>NaN\<close> in the program; the model has no
  infinity and gives \<open>NaN\<close>. No theorem below divides by zero.\<close>

fun divide_jsnum :: "jsnum \<Rightarrow> jsnum \<Rightarrow> jsnum" where
  "divide_jsnum (Num x) (Num y) = (if y = 0 then NaN else Num (x / y))"
| "divide_jsnum _ _ = NaN"

fun inverse_jsnum :: "jsnum \<Rightarrow> jsnum" where
  "inverse_jsnum (Num y) = (if y = 0 then NaN else Num (1 / y))"
| "inverse_jsnum NaN = NaN"

instance ..

end

text \<open>Truthiness of a number: \<open>0\<close>, \<open>NaN\<close> and \<open>undefined\<close> are falsy.\<close>

fun truthy :: "jsnum \<Rightarrow> bool" where
  "truthy NaN = False"
| "truthy (Num x) = (x \<noteq> 0)"

text \<open>\<open>v || d\<close> on numbers.\<close>

definition orElse :: "jsnum \<Rightarrow> jsnum \<Rightarrow> jsnum" where
  "orElse v d = (if truthy v then v else d)"

text \<open>\<open>xs[i]\<close>: \<open>undefined\<close> past the end of the array.\<close>

definition item :: "jsnum list \<Rightarrow> nat \<Rightarrow> jsnum" where
  "item xs i = (if i < length xs then xs ! i else NaN)"

fun jsCos :: "jsnum \<Rightarrow> jsnum" where
  "jsCos (Num x) = Num (cos x)"
| "jsCos NaN = NaN"

fun jsSin :: "jsnum \<Rightarrow> jsnum" where
  "jsSin (Num x) = Num (sin x)"
| "jsSin NaN = NaN"

fun jsTan :: "jsnum \<Rightarrow> jsnum" where
  "jsTan (Num x) = Num (tan x)"
| "jsTan NaN = NaN"

text \<open>
  Strings are lists of characters (code units below 256). \<open>isSpace\<close> is the class
  \<open>\s\<close> of regular expressions and the set removed by \<open>trim\<close>, on these code units;
  \<open>isLineTerminator\<close> is what the regular-expression dot refuses.
\<close>

definition isSpace :: "char \<Rightarrow> bool" where
  "isSpace c = (c = CHR 0x09 \<or> c = CHR 0x0A \<or> c = CHR 0x0B \<or> c = CHR 0x0C
     \<or> c = CHR 0x0D \<or> c = CHR 0x20 \<or> c = CHR 0xA0)"

definition isLineTerminator :: "char \<Rightarrow> bool" where
  "isLineTerminator c = (c = CHR 0x0A \<or> c = CHR 0x0D)"

definition trim :: "string \<Rightarrow> string" where
  "trim s = rev (dropWhile isSpace (rev (dropWhile isSpace s)))"

definition digitVal :: "char \<Rightarrow> nat option" where
  "digitVal c = map_of (zip ''0123456789'' [0, 1, 2, 3, 4, 5, 6, 7, 8, 9]) c"

definition isDigit :: "char \<Rightarrow> bool" where
  "isDigit c = (digitVal c \<noteq> None)"

definition digitsValue :: "string \<Rightarrow> nat" where
  "digitsValue ds = foldl (\<lambda>acc c. 10 * acc + (case digitVal c of Some d \<Rightarrow> d | None \<Rightarrow> 0)) 0 ds"

text \<open>\<open>String.prototype.replace(pat, rep)\<close> with a string pattern: the first occurrence
  of \<open>pat\<close> is replaced (the replacement used by the program is the empty string, which
  has no \<open>$\<close> patterns).\<close>

fun replaceFirst :: "string \<Rightarrow> string \<Rightarrow> string \<Rightarrow> string" where
  "replaceFirst pat rep [] = (if pat = [] then rep else [])"
| "replaceFirst pat rep (c # cs) =
     (if take (length pat) (c # cs) = pat then rep @ drop (length pat) (c # cs)
      else c # replaceFirst pat rep cs)"

subsection \<open>parseFloat\<close>

text \<open>
  The built-in \<open>parseFloat\<close>: leading white space is skipped, then the longest prefix
  that is a decimal literal (sign, digits, fraction, exponent) is read; \<open>NaN\<close> when there
  is none. The literal \<open>Infinity\<close> is outside the model (it reads as \<open>NaN\<close> here).
  The parsers return the text left over, which \<open>toNumber\<close> needs.
\<close>

definition pow10 :: "int \<Rightarrow> real" where
  "pow10 k = (if 0 \<le> k then 10 ^ nat k else 1 / 10 ^ nat (- k))"

definition parseExp :: "string \<Rightarrow> int \<times> string" where
  "parseExp s =
    (case s of
       [] \<Rightarrow> (0, s)
     | c # r \<Rightarrow>
        if c = CHR ''e'' \<or> c = CHR ''E'' then
          (let sr = (case r of
                       [] \<Rightarrow> (1, r)
                     | g # r' \<Rightarrow> if g = CHR ''-'' then (- 1, r')
                                else if g = CHR ''+'' then (1, r') else (1, r));
               ds = takeWhile isDigit (snd sr)
           in if ds = [] then (0, s)
              else (fst sr * int (digitsValue ds), dropWhile isDigit (snd sr)))
        else (0, s))"

definition parseUnsigned :: "string \<Rightarrow> (real \<times> string) option" where
  "parseUnsigned s =
    (let ip = takeWhile isDigit s;
         s1 = dropWhile isDigit s;
         fr = (case s1 of
                 [] \<Rightarrow> ([], s1)
               | c # r \<Rightarrow> if c = CHR ''.'' then (takeWhile isDigit r, dropWhile isDigit r)
                          else ([], s1))
     in if ip = [] \<and> fst fr = [] then None
        else (let ex = parseExp (snd fr)
              in Some ((real (digitsValue ip) + real (digitsValue (fst fr)) / 10 ^ length (fst fr))
                        * pow10 (fst ex), snd ex)))"

definition parseSigned :: "string \<Rightarrow> (real \<times> string) option" where
  "parseSigned s =
    (case s of
       [] \<Rightarrow> None
     | c # r \<Rightarrow>
        if c = CHR ''-'' then map_option (\<lambda>vr. (- fst vr, snd vr)) (parseUnsigned r)
        else if c = CHR ''+'' then parseUnsigned r
        else parseUnsigned s)"

definition parseFloat :: "string \<Rightarrow> jsnum" where
  "parseFloat s = (case parseSigned (dropWhile isSpace s) of None \<Rightarrow> NaN | Some vr \<Rightarrow> Num (fst vr))"

subsection \<open>parseFloats\<close>

text \<open>
  \<^verbatim>\<open>str.replace(/[^eE]-/g, " -").trim().split(/\s*\s|,\s*/).map(parseFloat)\<close>

  \<open>replaceMinus\<close> is the global replace: scanning from the left, a character other than
  \<open>e\<close> and \<open>E\<close> that is followed by a minus sign is matched together with it, and both
  are replaced by a space and a minus sign.
\<close>

fun replaceMinus :: "string \<Rightarrow> string" where
  "replaceMinus (c # d # cs) =
     (if c \<noteq> CHR ''e'' \<and> c \<noteq> CHR ''E'' \<and> d = CHR ''-''
      then CHR '' '' # CHR ''-'' # replaceMinus cs
      else c # replaceMinus (d # cs))"
| "replaceMinus cs = cs"

text \<open>
  \<open>split\<close> on \<^verbatim>\<open>/\s*\s|,\s*/\<close>: a separator starts at a white-space character (and
  takes the whole run of white space) or at a comma (and takes the white space after it).
  \<open>acc\<close> holds the current piece, reversed. The separator never matches the empty string,
  so the empty input gives one empty piece.
\<close>

function splitSep :: "string \<Rightarrow> string \<Rightarrow> string list" where
  "splitSep acc [] = [rev acc]"
| "splitSep acc (c # cs) =
     (if isSpace c \<or> c = CHR '',''
      then rev acc # splitSep [] (dropWhile isSpace cs)
      else splitSep (c # acc) cs)"
  by pat_completeness auto
termination
  by (relation "measure (\<lambda>(acc, s). length s)") (auto simp: length_dropWhile_le le_imp_less_Suc)

definition parseFloats :: "string \<Rightarrow> jsnum list" where
  "parseFloats str = map parseFloat (splitSep [] (trim (replaceMinus str)))"

section \<open>Affine matrices\<close>

text \<open>
  Modelled from the spec: the matrix type \<open>Matrix\<close>, \<open>unitMatrix\<close> and \<open>matrixMult\<close>
  belong to the drawing backend, which is not among the sources. The spec describes a
  matrix as six scalars \<open>(a,b,c,d,e,f)\<close> with the identity as neutral element, and
  \<open>compose(new, accumulated)\<close> as the map in which \<open>new\<close> takes effect in the local frame
  established by \<open>accumulated\<close>: a point goes through \<open>new\<close> first. With the source's own
  \<open>multVecMatrix\<close> (\<open>vec' = vec * matrix\<close>) this is the product of row-vector matrices,
  see \<open>multVecMatrix_matrixMult\<close> below.
\<close>

datatype matrix =
  Matrix (ma: jsnum) (mb: jsnum) (mc: jsnum) (md: jsnum) (me: jsnum) (mf: jsnum)

definition unitMatrix :: matrix where
  "unitMatrix = Matrix (Num 1) (Num 0) (Num 0) (Num 1) (Num 0) (Num 0)"

definition matrixMult :: "matrix \<Rightarrow> matrix \<Rightarrow> matrix" where
  "matrixMult m1 m2 =
     Matrix (ma m1 * ma m2 + mb m1 * mc m2)
            (ma m1 * mb m2 + mb m1 * md m2)
            (mc m1 * ma m2 + md m1 * mc m2)
            (mc m1 * mb m2 + md m1 * md m2)
            (me m1 * ma m2 + mf m1 * mc m2 + me m2)
            (me m1 * mb m2 + mf m1 * md m2 + mf m2)"

type_synonym point = "jsnum \<times> jsnum"

text \<open>\<open>multVecMatrix\<close> of the source: \<open>vec' = vec * matrix\<close>.\<close>

definition multVecMatrix :: "point \<Rightarrow> matrix \<Rightarrow> point" where
  "multVecMatrix vec matrix =
     (ma matrix * fst vec + mc matrix * snd vec + me matrix,
      mb matrix * fst vec + md matrix * snd vec + mf matrix)"

section \<open>The transform attribute\<close>

subsection \<open>The six regular expressions\<close>

text \<open>
  Each of \<^verbatim>\<open>/matrix\((.+)\)/\<close>, \<^verbatim>\<open>/translate\((.+)\)/\<close>, ... is a function name, an
  opening parenthesis, a greedy non-empty run of characters other than line terminators,
  and a closing parenthesis. \<open>greedyGroup\<close> is what \<^verbatim>\<open>(.+)\)\<close> captures on the text after
  the opening parenthesis: everything up to the last closing parenthesis that the dot can
  reach, if at least one character comes before it.
\<close>

definition greedyGroup :: "string \<Rightarrow> string option" where
  "greedyGroup rest =
    (let run = takeWhile (\<lambda>c. \<not> isLineTerminator c) rest;
         after = takeWhile (\<lambda>c. c \<noteq> CHR '')'') (rev run)
     in if length after = length run then None
        else if length run - length after - 1 = 0 then None
        else Some (take (length run - length after - 1) run))"

text \<open>A match at the start of \<open>s\<close>: the pair of \<open>match[0]\<close> and \<open>match[1]\<close>.\<close>

definition matchHere :: "string \<Rightarrow> string \<Rightarrow> (string \<times> string) option" where
  "matchHere name s =
    (if take (length name + 1) s = name @ ''(''
     then (case greedyGroup (drop (length name + 1) s) of
             None \<Rightarrow> None
           | Some g \<Rightarrow> Some (name @ ''('' @ g @ '')'', g))
     else None)"

text \<open>\<open>regex.exec(s)\<close>: the leftmost match.\<close>

fun execFn :: "string \<Rightarrow> string \<Rightarrow> (string \<times> string) option" where
  "execFn name [] = None"
| "execFn name (c # cs) =
     (case matchHere name (c # cs) of
        Some m \<Rightarrow> Some m
      | None \<Rightarrow> execFn name cs)"

subsection \<open>parseTransform\<close>

text \<open>
  One pass of the body of the \<open>while\<close> loop tries the six expressions in the fixed order
  matrix, rotate, translate, scale, skewX, skewY, each on the string left by the one
  before. The state is the pair of \<open>transformString\<close> and \<open>resultMatrix\<close>.
\<close>

type_synonym pstate = "string \<times> matrix"

definition stepMatrix :: "pstate \<Rightarrow> pstate" where
  "stepMatrix st =
    (case execFn ''matrix'' (fst st) of
       None \<Rightarrow> st
     | Some match \<Rightarrow>
        (let m = parseFloats (snd match)
         in (replaceFirst (fst match) [] (fst st),
             matrixMult (Matrix (item m 0) (item m 1) (item m 2) (item m 3) (item m 4) (item m 5))
                        (snd st))))"

definition rotation :: "jsnum \<Rightarrow> matrix" where
  "rotation deg =
    (let a = Num pi * deg / Num 180
     in Matrix (jsCos a) (jsSin a) (- jsSin a) (jsCos a) (Num 0) (Num 0))"

definition translation :: "jsnum \<Rightarrow> jsnum \<Rightarrow> matrix" where
  "translation tx ty = Matrix (Num 1) (Num 0) (Num 0) (Num 1) tx ty"

definition stepRotate :: "pstate \<Rightarrow> pstate" where
  "stepRotate st =
    (case execFn ''rotate'' (fst st) of
       None \<Rightarrow> st
     | Some match \<Rightarrow>
        (let m = parseFloats (snd match);
             r = matrixMult (rotation (item m 0)) (snd st);
             r' = (if truthy (item m 1) \<and> truthy (item m 2)
                   then (let t1 = translation (item m 1) (item m 2);
                             t2 = translation (- item m 1) (- item m 2)
                         in matrixMult t2 (matrixMult r t1))
                   else r)
         in (replaceFirst (fst match) [] (fst st), r')))"

definition stepTranslate :: "pstate \<Rightarrow> pstate" where
  "stepTranslate st =
    (case execFn ''translate'' (fst st) of
       None \<Rightarrow> st
     | Some match \<Rightarrow>
        (let m = parseFloats (snd match)
         in (replaceFirst (fst match) [] (fst st),
             matrixMult (translation (item m 0) (orElse (item m 1) (Num 0))) (snd st))))"

definition stepScale :: "pstate \<Rightarrow> pstate" where
  "stepScale st =
    (case execFn ''scale'' (fst st) of
       None \<Rightarrow> st
     | Some match \<Rightarrow>
        (let m = parseFloats (snd match);
             m1 = (if \<not> truthy (item m 1) then item m 0 else item m 1)
         in (replaceFirst (fst match) [] (fst st),
             matrixMult (Matrix (item m 0) (Num 0) (Num 0) m1 (Num 0) (Num 0)) (snd st))))"

definition stepSkewX :: "pstate \<Rightarrow> pstate" where
  "stepSkewX st =
    (case execFn ''skewX'' (fst st) of
       None \<Rightarrow> st
     | Some match \<Rightarrow>
        (let m = parseFloat (snd match)
         in (replaceFirst (fst match) [] (fst st),
             matrixMult (Matrix (Num 1) (Num 0) (jsTan m) (Num 1) (Num 0) (Num 0)) (snd st))))"

definition stepSkewY :: "pstate \<Rightarrow> pstate" where
  "stepSkewY st =
    (case execFn ''skewY'' (fst st) of
       None \<Rightarrow> st
     | Some match \<Rightarrow>
        (let m = parseFloat (snd match)
         in (replaceFirst (fst match) [] (fst st),
             matrixMult (Matrix (Num 1) (jsTan m) (Num 0) (Num 1) (Num 0) (Num 0)) (snd st))))"

definition loopBody :: "pstate \<Rightarrow> pstate" where
  "loopBody st = stepSkewY (stepSkewX (stepScale (stepTranslate (stepRotate (stepMatrix st)))))"

text \<open>
  \<^verbatim>\<open>while (transformString.length > 0) { ... }\<close>: nothing in the body shortens a string
  that no expression matches, so the loop need not end; \<open>None\<close> is the run that never
  returns.
\<close>

partial_function (option) parseLoop :: "pstate \<Rightarrow> matrix option" where
  "parseLoop st = (if length (fst st) > 0 then parseLoop (loopBody st) else Some (snd st))"

text \<open>The argument is \<open>None\<close> for an absent attribute (\<open>null\<close> or \<open>undefined\<close>).\<close>

definition parseTransform :: "string option \<Rightarrow> matrix option" where
  "parseTransform transformString =
    (case transformString of
       None \<Rightarrow> Some unitMatrix
     | Some ts \<Rightarrow> if ts = [] then Some unitMatrix else parseLoop (ts, unitMatrix))"

subsection \<open>Evaluation rules\<close>

lemmas num_eval = parseFloats_def trim_def isSpace_def parseFloat_def parseSigned_def
  parseUnsigned_def parseExp_def isDigit_def digitVal_def digitsValue_def pow10_def item_def
  orElse_def Let_def
lemmas re_eval = greedyGroup_def matchHere_def isLineTerminator_def
lemmas step_eval = loopBody_def stepMatrix_def stepRotate_def stepTranslate_def stepScale_def
  stepSkewX_def stepSkewY_def
lemmas mat_eval = matrixMult_def unitMatrix_def translation_def rotation_def multVecMatrix_def

subsection \<open>Numeric lists\<close>

text \<open>Lists separated by commas, by white space, or by a comma followed by white space
  are read as written.\<close>

lemma parseFloats_separators:
  "parseFloats ''1,2 3,  4'' = [Num 1, Num 2, Num 3, Num 4]"
  "parseFloats ''10 -5'' = [Num 10, Num (- 5)]"
  "parseFloats ''1.5e-3,-2   3'' = [Num (3 / 2000), Num (- 2), Num 3]"
  by (simp_all add: num_eval)

text \<open>White space before a comma leaves an empty piece, which reads as \<open>NaN\<close>.\<close>

lemma parseFloats_space_comma: "parseFloats ''1 , 2'' = [Num 1, NaN, Num 2]"
  by (simp add: num_eval)

text \<open>
  C5. The claim: a minus sign adjoining a digit starts a new number without altering the
  number before it, so that \<open>10-5\<close> reads as 10 and -5. The code replaces the minus sign
  together with the character before it: on \<open>10-5\<close> the digit 0 is lost and the list read
  is 1 and -5.
\<close>

theorem parseFloats_minus_eats_character:
  "replaceMinus ''10-5'' = ''1 -5'' \<and> parseFloats ''10-5'' = [Num 1, Num (- 5)]
   \<and> parseFloats ''10-5'' \<noteq> [Num 10, Num (- 5)]"
  by (simp add: num_eval)

subsection \<open>Composition of matrices\<close>

text \<open>\<open>matrixMult m1 m2\<close> sends a point through \<open>m1\<close> first and \<open>m2\<close> second.\<close>

lemma multVecMatrix_matrixMult:
  "multVecMatrix (Num x, Num y)
     (matrixMult (Matrix (Num a1) (Num b1) (Num c1) (Num d1) (Num e1) (Num f1))
                 (Matrix (Num a2) (Num b2) (Num c2) (Num d2) (Num e2) (Num f2)))
   = multVecMatrix
       (multVecMatrix (Num x, Num y) (Matrix (Num a1) (Num b1) (Num c1) (Num d1) (Num e1) (Num f1)))
       (Matrix (Num a2) (Num b2) (Num c2) (Num d2) (Num e2) (Num f2))"
  by (simp add: multVecMatrix_def matrixMult_def algebra_simps)

lemma multVecMatrix_unitMatrix: "multVecMatrix (Num x, Num y) unitMatrix = (Num x, Num y)"
  by (simp add: mat_eval)

subsection \<open>The loop of parseTransform\<close>

lemma parseLoop_done: "parseLoop ([], m) = Some m"
  by (subst parseLoop.simps) simp

lemma parseLoop_step: "s \<noteq> [] \<Longrightarrow> parseLoop (s, m) = parseLoop (loopBody (s, m))"
  by (subst parseLoop.simps) simp

text \<open>A string is stuck when it is not empty and a pass of the loop body leaves it as it
  is, whatever the matrix: the six expressions find nothing in it.\<close>

definition stuck :: "string \<Rightarrow> bool" where
  "stuck s = (s \<noteq> [] \<and> (\<forall>m. fst (loopBody (s, m)) = s))"

lemma parseLoop_not_stuck:
  assumes "parseLoop st = Some y"
  shows "\<not> stuck (fst st)"
  using assms
proof (rule parseLoop.raw_induct[rotated])
  fix f st y
  assume IH: "\<And>x y. f x = Some y \<Longrightarrow> \<not> stuck (fst x)"
    and step: "(if 0 < length (fst st) then f (loopBody st) else Some (snd st)) = Some y"
  show "\<not> stuck (fst st)"
  proof
    assume s: "stuck (fst st)"
    then have "fst st \<noteq> []" by (simp add: stuck_def)
    then have "f (loopBody st) = Some y" using step by simp
    then have "\<not> stuck (fst (loopBody st))" by (rule IH)
    moreover have "fst (loopBody st) = fst st"
      using s by (cases st) (simp add: stuck_def)
    ultimately show False using s by simp
  qed
qed

lemma parseLoop_stuck: "stuck (fst st) \<Longrightarrow> parseLoop st = None"
  using parseLoop_not_stuck [of st] by (cases "parseLoop st") auto

lemma stuck_space: "stuck '' ''"
  by (simp add: stuck_def step_eval re_eval)

lemma stuck_unknown_token: "stuck ''foo''"
  by (simp add: stuck_def step_eval re_eval)

text \<open>An absent and an empty attribute give the identity.\<close>

lemma parseTransform_absent:
  "parseTransform None = Some unitMatrix"
  "parseTransform (Some []) = Some unitMatrix"
  by (simp_all add: parseTransform_def)

text \<open>A single function with nothing around it is read and the loop ends.\<close>

lemma loopBody_translate:
  "loopBody (''translate(10,0)'', unitMatrix) = ([], translation (Num 10) (Num 0))"
  by (simp add: step_eval re_eval num_eval mat_eval)

lemma parseTransform_translate:
  "parseTransform (Some ''translate(10,0)'') = Some (translation (Num 10) (Num 0))"
  by (simp add: parseTransform_def parseLoop_step loopBody_translate parseLoop_done)

text \<open>An unknown token is not skipped: the loop runs for ever on it.\<close>

lemma parseTransform_unknown_token: "parseTransform (Some ''foo'') = None"
  by (simp add: parseTransform_def parseLoop_stuck stuck_unknown_token)

lemma loopBody_scale_translate:
  "loopBody (''scale(2) translate(10,0)'', unitMatrix)
   = ('' '', Matrix (Num 2) (Num 0) (Num 0) (Num 2) (Num 10) (Num 0))"
  by (simp add: step_eval re_eval num_eval mat_eval)

text \<open>
  C2. The claim: parseTransform returns a matrix for every string, and ignores unknown
  tokens. On \<open>scale(2) translate(10,0)\<close> the first pass of the loop reads both functions
  and leaves the space between them; no expression matches a space and nothing removes
  it, so the loop never ends and the function does not return.
\<close>

theorem parseTransform_never_returns:
  "parseTransform (Some ''scale(2) translate(10,0)'') = None"
  by (simp add: parseTransform_def parseLoop_step loopBody_scale_translate parseLoop_stuck
      stuck_space)

lemma loopBody_translate_scale:
  "loopBody (''translate(10,0) scale(2)'', unitMatrix) = ([], translation (Num 10) (Num 0))"
  by (simp add: step_eval re_eval num_eval mat_eval)

text \<open>
  C1. The claim: the functions of a transform string are composed in written order, and
  the matrix of \<open>translate(10,0) scale(2)\<close> sends (1,0) to (12,0). In the code the
  greedy group of the translate expression runs to the last closing parenthesis of the
  string, so the match takes \<open>scale(2)\<close> with it; the arguments read are 10 and 0, the
  whole string is removed, and the result is the translation alone, which sends (1,0) to
  (11,0).
\<close>

theorem parseTransform_greedy_match:
  "execFn ''translate'' ''translate(10,0) scale(2)''
     = Some (''translate(10,0) scale(2)'', ''10,0) scale(2'')
   \<and> parseTransform (Some ''translate(10,0) scale(2)'') = Some (translation (Num 10) (Num 0))
   \<and> multVecMatrix (Num 1, Num 0) (translation (Num 10) (Num 0)) = (Num 11, Num 0)"
  by (simp add: parseTransform_def parseLoop_step loopBody_translate_scale parseLoop_done)
     (simp add: mat_eval re_eval)

text \<open>Without the space the loop ends, and the order of composition is that of the six
  expressions, not the written one: translate is read before scale, so the matrix scales
  first and (1,0) goes to (12,0), where the written order asks for (22,0).\<close>

lemma loopBody_scale_translate_adjacent:
  "loopBody (''scale(2)translate(10,0)'', unitMatrix)
   = ([], Matrix (Num 2) (Num 0) (Num 0) (Num 2) (Num 10) (Num 0))"
  by (simp add: step_eval re_eval num_eval mat_eval)

lemma parseTransform_fixed_order:
  "parseTransform (Some ''scale(2)translate(10,0)'')
     = Some (Matrix (Num 2) (Num 0) (Num 0) (Num 2) (Num 10) (Num 0))
   \<and> multVecMatrix (Num 1, Num 0) (Matrix (Num 2) (Num 0) (Num 0) (Num 2) (Num 10) (Num 0))
     = (Num 12, Num 0)"
  by (simp add: parseTransform_def parseLoop_step loopBody_scale_translate_adjacent
      parseLoop_done) (simp add: mat_eval)

subsection \<open>Rotation about a pivot\<close>

text \<open>When both pivot coordinates are truthy the rotate branch, started on the identity,
  gives the translation by \<open>-c\<close>, then the rotation, then the translation by \<open>c\<close>.\<close>

lemma stepRotate_pivot:
  assumes "execFn ''rotate'' s = Some (m0, m1)"
    and "parseFloats m1 = [Num deg, Num cx, Num cy]"
    and "cx \<noteq> 0" and "cy \<noteq> 0"
  shows "snd (stepRotate (s, unitMatrix)) =
     matrixMult (translation (Num (- cx)) (Num (- cy)))
       (matrixMult (rotation (Num deg)) (translation (Num cx) (Num cy)))"
  using assms by (simp add: stepRotate_def item_def Let_def mat_eval)

lemma pivot_rotation_point:
  "multVecMatrix (Num x, Num y)
     (matrixMult (translation (Num (- cx)) (Num (- cy)))
       (matrixMult (rotation (Num deg)) (translation (Num cx) (Num cy))))
   = (Num (cos (pi * deg / 180) * (x - cx) - sin (pi * deg / 180) * (y - cy) + cx),
      Num (sin (pi * deg / 180) * (x - cx) + cos (pi * deg / 180) * (y - cy) + cy))"
  by (simp add: mat_eval Let_def algebra_simps)

lemma loopBody_rotate_pivot:
  "loopBody (''rotate(90,1,1)'', unitMatrix)
   = ([], Matrix (Num 0) (Num 1) (Num (- 1)) (Num 0) (Num 2) (Num 0))"
  by (simp add: step_eval re_eval num_eval mat_eval)

lemma parseTransform_rotate_pivot:
  "parseTransform (Some ''rotate(90,1,1)'')
     = Some (Matrix (Num 0) (Num 1) (Num (- 1)) (Num 0) (Num 2) (Num 0))
   \<and> multVecMatrix (Num 1, Num 0) (Matrix (Num 0) (Num 1) (Num (- 1)) (Num 0) (Num 2) (Num 0))
     = (Num 2, Num 1)"
  by (simp add: parseTransform_def parseLoop_step loopBody_rotate_pivot parseLoop_done)
     (simp add: mat_eval)

lemma loopBody_rotate_axis_pivot:
  "loopBody (''rotate(90,1,0)'', unitMatrix) = ([], rotation (Num 90))"
  by (simp add: step_eval re_eval num_eval mat_eval)

text \<open>
  C7. The claim: for every angle and every pivot the matrix of \<open>rotate(deg,cx,cy)\<close> is the
  rotation about the pivot. The code applies the pivot only when \<open>m[1] && m[2]\<close> holds,
  and the number 0 is falsy: a pivot with one coordinate 0 is dropped. For
  \<open>rotate(90,1,0)\<close> the result is the rotation about the origin, which moves the pivot
  (1,0) itself to (0,1); a rotation about (1,0) leaves it where it is.
\<close>

theorem parseTransform_rotate_axis_pivot:
  "parseTransform (Some ''rotate(90,1,0)'') = Some (rotation (Num 90))
   \<and> multVecMatrix (Num 1, Num 0) (rotation (Num 90)) = (Num 0, Num 1)
   \<and> multVecMatrix (Num 1, Num 0)
        (matrixMult (translation (Num (- 1)) (Num 0))
           (matrixMult (rotation (Num 90)) (translation (Num 1) (Num 0)))) = (Num 1, Num 0)"
  by (simp add: parseTransform_def parseLoop_step loopBody_rotate_axis_pivot parseLoop_done)
     (simp add: mat_eval)

section \<open>Scoped ids\<close>

text \<open>\<open>SvgPrefix\<close>: an id prefix and the counter of the children made so far (the
  field \<open>id\<close> of the source).\<close>

record SvgPrefix =
  prefix :: string
  idCounter :: nat

text \<open>The decimal text of a number, as string concatenation writes it.\<close>

definition digitChar :: "nat \<Rightarrow> char" where
  "digitChar d = ''0123456789'' ! d"

function decimal :: "nat \<Rightarrow> string" where
  "decimal n = (if n < 10 then [digitChar n] else decimal (n div 10) @ [digitChar (n mod 10)])"
  by pat_completeness auto
termination
  by (relation "measure id") auto

declare decimal.simps [simp del]

text \<open>\<open>nextChild\<close> returns the child's prefix object and leaves the counter of the
  parent advanced by one: the pair of the child and the updated parent.\<close>

definition nextChild :: "SvgPrefix \<Rightarrow> SvgPrefix \<times> SvgPrefix" where
  "nextChild this =
     (\<lparr>prefix = ''_'' @ decimal (idCounter this) @ ''_'' @ prefix this, idCounter = 0\<rparr>,
      this\<lparr>idCounter := idCounter this + 1\<rparr>)"

text \<open>
  \<^verbatim>\<open>/_\d+_/\<close> at the start of a string: an underscore, the whole run of digits after it,
  which must not be empty, and an underscore. The result is the length of the match.
\<close>

definition segMatch :: "string \<Rightarrow> nat option" where
  "segMatch s =
    (case s of
       [] \<Rightarrow> None
     | c # r \<Rightarrow>
        if c = CHR ''_'' \<and> takeWhile isDigit r \<noteq> []
           \<and> (case dropWhile isDigit r of [] \<Rightarrow> False | u # _ \<Rightarrow> u = CHR ''_'')
        then Some (length (takeWhile isDigit r) + 2)
        else None)"

text \<open>\<open>id.replace(regExp, "")\<close>, when \<open>regExp.exec(id)\<close> finds a match: the leftmost match
  is removed. \<open>None\<close> when there is no match.\<close>

fun stripSeg :: "string \<Rightarrow> string option" where
  "stripSeg [] = None"
| "stripSeg (c # cs) =
     (case segMatch (c # cs) of
        Some n \<Rightarrow> Some (drop n (c # cs))
      | None \<Rightarrow> map_option ((#) c) (stripSeg cs))"

lemma stripSeg_shorter: "stripSeg s = Some t \<Longrightarrow> length t < length s"
proof (induction s arbitrary: t)
  case Nil
  then show ?case by simp
next
  case (Cons c cs)
  show ?case
  proof (cases "segMatch (c # cs)")
    case None
    with Cons.prems obtain t' where "stripSeg cs = Some t'" "t = c # t'" by auto
    with Cons.IH show ?thesis by auto
  next
    case (Some n)
    then have "0 < n" by (auto simp: segMatch_def split: if_splits)
    with Some Cons.prems show ?thesis by auto
  qed
qed

function getFromDefs :: "string \<Rightarrow> (string \<rightharpoonup> 'n) \<Rightarrow> 'n option" where
  "getFromDefs ident defs =
     (if defs ident = None
      then (case stripSeg ident of
              None \<Rightarrow> defs ident
            | Some ident' \<Rightarrow> getFromDefs ident' defs)
      else defs ident)"
  by pat_completeness auto
termination
  by (relation "measure (\<lambda>(ident, defs). length ident)") (auto simp: stripSeg_shorter)

declare getFromDefs.simps [simp del]

lemmas seg_eval = segMatch_def isDigit_def digitVal_def

text \<open>The prefix of a scope at nesting path \<open>ks\<close>, innermost counter first.\<close>

definition seg :: "nat \<Rightarrow> string" where
  "seg k = ''_'' @ decimal k @ ''_''"

definition scopePrefix :: "nat list \<Rightarrow> string" where
  "scopePrefix ks = concat (map seg ks)"

text \<open>The lookup in the spec's words: try the full prefix, on failure drop the innermost
  segment, until a match is found or no segment is left.\<close>

fun scopedLookup :: "nat list \<Rightarrow> string \<Rightarrow> (string \<rightharpoonup> 'n) \<Rightarrow> 'n option" where
  "scopedLookup [] ident defs = defs ident"
| "scopedLookup (k # ks) ident defs =
     (case defs (scopePrefix (k # ks) @ ident) of
        Some n \<Rightarrow> Some n
      | None \<Rightarrow> scopedLookup ks ident defs)"

lemma isDigit_digitChar: "d < 10 \<Longrightarrow> isDigit (digitChar d)"
proof -
  assume "d < 10"
  then have "d \<in> set [0, 1, 2, 3, 4, 5, 6, 7, 8, 9]" by (simp del: less_numeral_extra) arith
  then show ?thesis
    by (auto simp: digitChar_def isDigit_def digitVal_def)
qed

lemma decimal_digits: "decimal n \<noteq> [] \<and> (\<forall>c \<in> set (decimal n). isDigit c)"
proof (induction n rule: decimal.induct)
  case (1 n)
  show ?case
  proof (cases "n < 10")
    case True
    then have "decimal n = [digitChar n]" by (subst decimal.simps) simp
    with True show ?thesis by (simp add: isDigit_digitChar)
  next
    case False
    then have "decimal n = decimal (n div 10) @ [digitChar (n mod 10)]"
      by (subst decimal.simps) simp
    with False 1 show ?thesis by (simp add: isDigit_digitChar)
  qed
qed

lemma nextChild_prefix: "prefix (fst (nextChild this)) = seg (idCounter this) @ prefix this"
  by (simp add: nextChild_def seg_def)

lemma not_isDigit_underscore: "\<not> isDigit CHR ''_''"
  by (simp add: isDigit_def digitVal_def)

lemma segMatch_seg: "segMatch (seg k @ rest) = Some (length (seg k))"
proof -
  have t: "takeWhile isDigit (decimal k @ CHR ''_'' # rest) = decimal k"
    using decimal_digits [of k] by (simp add: takeWhile_append2 not_isDigit_underscore)
  have d: "dropWhile isDigit (decimal k @ CHR ''_'' # rest) = CHR ''_'' # rest"
    using decimal_digits [of k] by (simp add: dropWhile_append2 not_isDigit_underscore)
  show ?thesis
    using decimal_digits [of k] by (simp add: segMatch_def seg_def t d)
qed

lemma stripSeg_seg: "stripSeg (seg k @ rest) = Some rest"
proof -
  obtain cs where cs: "seg k @ rest = CHR ''_'' # cs" by (simp add: seg_def)
  have "stripSeg (CHR ''_'' # cs) = Some (drop (length (seg k)) (CHR ''_'' # cs))"
    using segMatch_seg [of k rest] by (simp add: cs)
  then show ?thesis by (simp add: cs [symmetric])
qed

lemma getFromDefs_found: "defs ident = Some n \<Longrightarrow> getFromDefs ident defs = Some n"
  by (subst getFromDefs.simps) simp

lemma getFromDefs_scoped:
  assumes "stripSeg ident = None"
  shows "getFromDefs (scopePrefix ks @ ident) defs = scopedLookup ks ident defs"
proof (induction ks)
  case Nil
  show ?case using assms by (subst getFromDefs.simps) (simp add: scopePrefix_def)
next
  case (Cons k ks)
  have s: "stripSeg (scopePrefix (k # ks) @ ident) = Some (scopePrefix ks @ ident)"
    using stripSeg_seg [of k "scopePrefix ks @ ident"] by (simp add: scopePrefix_def)
  show ?case
  proof (cases "defs (scopePrefix (k # ks) @ ident)")
    case None
    then show ?thesis using Cons s by (subst getFromDefs.simps) simp
  next
    case (Some n)
    then show ?thesis by (simp add: getFromDefs_found)
  qed
qed

text \<open>
  C4. The claim: the lookup strips prefix segments only, and fails when no prefix segment
  remains. The expression \<^verbatim>\<open>/_\d+_/\<close> is not tied to the prefix: when every prefixed key
  has missed, it goes on into the id itself. From the root scope (empty prefix) the id
  \<open>a_1_b\<close>, which no definition has, is cut down to \<open>ab\<close> and resolves to the definition
  of that other id; the lookup of the claim fails there. For an id in which the expression
  finds nothing the code is the lookup of the claim (\<open>getFromDefs_scoped\<close>).
\<close>

theorem getFromDefs_strips_id_text:
  "stripSeg ''a_1_b'' = Some ''ab''
   \<and> getFromDefs (scopePrefix [] @ ''a_1_b'') [''ab'' \<mapsto> (0::nat)] = Some 0
   \<and> scopedLookup [] ''a_1_b'' [''ab'' \<mapsto> (0::nat)] = None"
  by (simp add: getFromDefs.simps seg_eval scopePrefix_def)

lemma scoping_example:
  "getFromDefs (scopePrefix [0] @ ''a'') [''a'' \<mapsto> (1::nat), ''_0_a'' \<mapsto> 2] = Some 2"
  "getFromDefs (scopePrefix [1] @ ''a'') [''a'' \<mapsto> (1::nat), ''_0_a'' \<mapsto> 2] = Some 1"
  by (simp_all add: getFromDefs.simps seg_eval scopePrefix_def seg_def decimal.simps digitChar_def)


section \<open>The document tree\<close>

text \<open>
  Elements are objects with identity: a document is a store of nodes, and a node is known
  by its address, the index in the store. Only elements are kept (the program walks
  \<open>children()\<close>). \<open>childNodes\<close> and \<open>parentNode\<close> hold addresses.
\<close>

record node =
  tagName :: string
  attributes :: "(string \<times> string) list"
  style :: "(string \<times> string) list"
  childNodes :: "nat list"
  parentNode :: "nat option"

type_synonym dom = "node list"

text \<open>\<open>toLowerCase\<close> on the letters A to Z.\<close>

definition lowerChar :: "char \<Rightarrow> char" where
  "lowerChar c =
     (case map_of (zip ''ABCDEFGHIJKLMNOPQRSTUVWXYZ'' ''abcdefghijklmnopqrstuvwxyz'') c of
        Some l \<Rightarrow> l
      | None \<Rightarrow> c)"

definition toLowerCase :: "string \<Rightarrow> string" where
  "toLowerCase s = map lowerChar s"

text \<open>\<open>n.attr(name)\<close> and \<open>node.getAttribute(name)\<close>: \<open>None\<close> is \<open>undefined\<close> or \<open>null\<close>.\<close>

definition attr :: "node \<Rightarrow> string \<Rightarrow> string option" where
  "attr nd name = map_of (attributes nd) name"

text \<open>A string or a missing value in a condition: only the non-empty string is truthy.\<close>

definition present :: "string option \<Rightarrow> bool" where
  "present v = (case v of None \<Rightarrow> False | Some s \<Rightarrow> s \<noteq> [])"

text \<open>\<open>getAttribute(node, propertyNode)\<close> of the source:
  \<^verbatim>\<open>node.getAttribute(propertyNode) || node.style[propertyCss]\<close>. A style property that is
  not set reads as the empty string.\<close>

definition getAttribute :: "node \<Rightarrow> string \<Rightarrow> string" where
  "getAttribute nd name =
     (if present (attr nd name) then the (attr nd name)
      else (case map_of (style nd) name of None \<Rightarrow> [] | Some v \<Rightarrow> v))"

subsection \<open>Numbers from strings in comparisons\<close>

text \<open>
  \<open>toNumber\<close> is the conversion a string undergoes in \<open>opacity != 1\<close> and \<open>width > 0\<close>: white
  space is trimmed, the empty string is 0, and the whole rest must be a decimal literal
  or a literal with the prefix \<open>0x\<close>, \<open>0o\<close> or \<open>0b\<close>; anything else is \<open>NaN\<close>.
\<close>

definition radixDigit :: "char \<Rightarrow> nat option" where
  "radixDigit c = map_of (zip ''0123456789abcdefABCDEF''
     [0, 1, 2, 3, 4, 5, 6, 7, 8, 9, 10, 11, 12, 13, 14, 15, 10, 11, 12, 13, 14, 15]) c"

definition radixValue :: "nat \<Rightarrow> string \<Rightarrow> jsnum" where
  "radixValue b ds =
     (if ds \<noteq> [] \<and> list_all (\<lambda>c. case radixDigit c of None \<Rightarrow> False | Some d \<Rightarrow> d < b) ds
      then Num (real (foldl (\<lambda>acc c. b * acc + the (radixDigit c)) 0 ds))
      else NaN)"

definition nonDecimal :: "string \<Rightarrow> jsnum" where
  "nonDecimal t =
     (case t of
        z # p # ds \<Rightarrow>
          if z = CHR ''0'' \<and> (p = CHR ''x'' \<or> p = CHR ''X'') then radixValue 16 ds
          else if z = CHR ''0'' \<and> (p = CHR ''o'' \<or> p = CHR ''O'') then radixValue 8 ds
          else if z = CHR ''0'' \<and> (p = CHR ''b'' \<or> p = CHR ''B'') then radixValue 2 ds
          else NaN
      | _ \<Rightarrow> NaN)"

definition toNumber :: "string \<Rightarrow> jsnum" where
  "toNumber s =
     (let t = trim s
      in if t = [] then Num 0
         else (case parseSigned t of
                 Some vr \<Rightarrow> if snd vr = [] then Num (fst vr) else nonDecimal t
               | None \<Rightarrow> nonDecimal t))"

section \<open>Gradients\<close>

text \<open>A coordinate handed to the pattern is an attribute text, a number, or
  \<open>undefined\<close>.\<close>

datatype jsval = Undefined | Str string | Number jsnum

definition attrVal :: "node \<Rightarrow> string \<Rightarrow> jsval" where
  "attrVal nd name = (case attr nd name of None \<Rightarrow> Undefined | Some s \<Rightarrow> Str s)"

text \<open>\<open>a || b\<close> on these values.\<close>

fun valTruthy :: "jsval \<Rightarrow> bool" where
  "valTruthy Undefined = False"
| "valTruthy (Str s) = (s \<noteq> [])"
| "valTruthy (Number v) = truthy v"

definition valOr :: "jsval \<Rightarrow> jsval \<Rightarrow> jsval" where
  "valOr u v = (if valTruthy u then u else v)"

text \<open>
  Modelled from the spec: \<open>RGBColor\<close>, \<open>Pattern\<close> and \<open>GState\<close> are not among the sources.
  The pattern is the record of what the program hands to the constructor; a colour stop
  keeps the text of its \<open>stop-color\<close> where the program keeps the parsed channels. The
  graphics state of a pattern holds one opacity, or is absent.
\<close>

record colorStop =
  offset :: jsnum
  color :: string

record pattern =
  patternType :: string
  coords :: "jsval list"
  colors :: "colorStop list"
  gState :: "jsnum option"

text \<open>The state of the loop over the children in \<open>putGradient\<close>: \<open>colors\<close>, \<open>opacitySum\<close>
  and \<open>hasOpacity\<close>.\<close>

type_synonym gradAcc = "colorStop list \<times> jsnum \<times> bool"

definition stopStep :: "gradAcc \<Rightarrow> node \<Rightarrow> gradAcc" where
  "stopStep acc element =
     (case acc of (cs, opacitySum, hasOpacity) \<Rightarrow>
        if toLowerCase (tagName element) = ''stop'' then
          (let cs' = cs @ [\<lparr>offset = (case attr element ''offset'' of
                                          None \<Rightarrow> NaN | Some s \<Rightarrow> parseFloat s),
                              color = getAttribute element ''stop-color''\<rparr>];
               opacity = getAttribute element ''stop-opacity''
           in if opacity \<noteq> [] \<and> toNumber opacity \<noteq> Num 1
              then (cs', opacitySum + parseFloat opacity, True)
              else (cs', opacitySum, hasOpacity))
        else acc)"

text \<open>\<open>putGradient\<close>: the pattern built, the id it is stored under, and the new \<open>defs\<close>.
  \<open>kids\<close> are the children of the gradient element \<open>node\<close>, which lives at address \<open>a\<close>.\<close>

definition putGradient ::
  "node list \<Rightarrow> node \<Rightarrow> nat \<Rightarrow> string \<Rightarrow> jsval list \<Rightarrow> (string \<rightharpoonup> nat) \<Rightarrow> SvgPrefix
     \<Rightarrow> pattern \<times> string \<times> (string \<rightharpoonup> nat)" where
  "putGradient kids nd a type cds defs svgIdPrefix =
     (case foldl stopStep ([], Num 0, False) kids of (cs, opacitySum, hasOpacity) \<Rightarrow>
        (let g = (if hasOpacity then Some (opacitySum / Num (real (length cds))) else None);
             ident = prefix svgIdPrefix @ (case attr nd ''id'' of None \<Rightarrow> ''undefined'' | Some s \<Rightarrow> s)
         in (\<lparr>patternType = type, coords = cds, colors = cs, gState = g\<rparr>, ident, defs(ident \<mapsto> a))))"

text \<open>The coordinate lists that \<open>renderNode\<close> builds for the two kinds of gradient.\<close>

definition linearCoords :: "node \<Rightarrow> jsval list" where
  "linearCoords nd = [attrVal nd ''x1'', attrVal nd ''y1'', attrVal nd ''x2'', attrVal nd ''y2'']"

definition radialCoords :: "node \<Rightarrow> jsval list" where
  "radialCoords nd =
     [valOr (attrVal nd ''fx'') (attrVal nd ''cx''),
      valOr (attrVal nd ''fy'') (attrVal nd ''cy''),
      Number (Num 0),
      valOr (attrVal nd ''cx'') (Number (Num 0)),
      valOr (attrVal nd ''cy'') (Number (Num 0)),
      valOr (attrVal nd ''r'') (Number (Num 0))]"


subsection \<open>The opacity of a gradient\<close>

text \<open>A child that contributes to the opacity, in the spec's words: a stop whose opacity
  is present and is not full opacity.\<close>

definition contributes :: "node \<Rightarrow> bool" where
  "contributes e =
     (toLowerCase (tagName e) = ''stop'' \<and> getAttribute e ''stop-opacity'' \<noteq> []
      \<and> toNumber (getAttribute e ''stop-opacity'') \<noteq> Num 1)"

definition stopOpacity :: "node \<Rightarrow> jsnum" where
  "stopOpacity e = parseFloat (getAttribute e ''stop-opacity'')"

lemma foldl_stopStep:
  "foldl stopStep (cs, s, h) kids =
     (fst (foldl stopStep (cs, s, h) kids),
      foldl (+) s (map stopOpacity (filter contributes kids)),
      h \<or> filter contributes kids \<noteq> [])"
proof (induction kids arbitrary: cs s h)
  case Nil
  show ?case by simp
next
  case (Cons k kids)
  obtain cs' s' h' where step: "stopStep (cs, s, h) k = (cs', s', h')"
    by (cases "stopStep (cs, s, h) k") auto
  have s': "s' = (if contributes k then s + stopOpacity k else s)"
    and h': "h' = (h \<or> contributes k)"
    using step by (auto simp: stopStep_def contributes_def stopOpacity_def Let_def split: if_splits)
  have "foldl stopStep (cs, s, h) (k # kids) = foldl stopStep (cs', s', h') kids"
    by (simp add: step)
  also have "\<dots> = (fst (foldl stopStep (cs', s', h') kids),
      foldl (+) s' (map stopOpacity (filter contributes kids)),
      h' \<or> filter contributes kids \<noteq> [])"
    by (rule Cons.IH)
  finally have e: "foldl stopStep (cs, s, h) (k # kids) =
     (fst (foldl stopStep (cs', s', h') kids),
      foldl (+) s' (map stopOpacity (filter contributes kids)),
      h' \<or> filter contributes kids \<noteq> [])" .
  show ?case
  proof (cases "contributes k")
    case True
    with e show ?thesis by (simp add: s' h')
  next
    case False
    with e show ?thesis by (simp add: s' h')
  qed
qed

lemma putGradient_gState:
  "gState (fst (putGradient kids nd a type cds defs pfx)) =
     (if filter contributes kids = [] then None
      else Some (foldl (+) (Num 0) (map stopOpacity (filter contributes kids))
                 / Num (real (length cds))))"
proof -
  obtain cs s h where f: "foldl stopStep ([], Num 0, False) kids = (cs, s, h)"
    by (cases "foldl stopStep ([], Num 0, False) kids") auto
  from foldl_stopStep [of "[]" "Num 0" False kids] f
  have "s = foldl (+) (Num 0) (map stopOpacity (filter contributes kids))"
    and "h = (filter contributes kids \<noteq> [])" by auto
  then show ?thesis by (simp add: putGradient_def f Let_def)
qed

text \<open>
  C6. Every stop whose opacity is present and is not full opacity adds its opacity to a
  sum; the opacity of the paint is that sum divided by the number of coordinate values
  handed over by \<open>renderNode\<close>, 4 for a linear and 6 for a radial gradient, whatever the
  number of stops; when no stop contributes, the pattern gets no graphics state.
\<close>

theorem gradient_opacity_by_coordinate_count:
  "gState (fst (putGradient kids nd a ''axial'' (linearCoords nd) defs pfx)) =
     (if filter contributes kids = [] then None
      else Some (foldl (+) (Num 0) (map stopOpacity (filter contributes kids)) / Num 4))
   \<and> gState (fst (putGradient kids nd a ''radial'' (radialCoords nd) defs pfx)) =
     (if filter contributes kids = [] then None
      else Some (foldl (+) (Num 0) (map stopOpacity (filter contributes kids)) / Num 6))"
  by (simp add: putGradient_gState linearCoords_def radialCoords_def)

definition stopNode :: "string \<Rightarrow> node" where
  "stopNode op = \<lparr>tagName = ''stop'', attributes = [(''offset'', ''0''), (''stop-opacity'', op)],
     style = [], childNodes = [], parentNode = Some 0\<rparr>"

definition gradientNode :: node where
  "gradientNode = \<lparr>tagName = ''linearGradient'', attributes = [(''id'', ''g'')],
     style = [], childNodes = [1, 2], parentNode = None\<rparr>"

lemmas dom_eval = attr_def present_def getAttribute_def toLowerCase_def lowerChar_def
  toNumber_def nonDecimal_def radixValue_def radixDigit_def

lemma contributes_half: "contributes (stopNode ''0.5'')" "stopOpacity (stopNode ''0.5'') = Num (1 / 2)"
  by (simp_all add: contributes_def stopOpacity_def stopNode_def dom_eval num_eval)

lemma contributes_full: "\<not> contributes (stopNode ''1.0'')"  "\<not> contributes (stopNode '' 1 '')"
   "\<not> contributes (stopNode ''0x1'')"  "\<not> contributes (stopNode [])"
  by (simp_all add: contributes_def stopOpacity_def stopNode_def dom_eval num_eval)

text \<open>Two stops of opacity 0.5: the paint gets 0.25 on a linear and 1/6 on a radial
  gradient (the mean over the stops is 0.5). Stops of full or empty opacity: no state.\<close>

theorem gradient_opacity_witness:
  "gState (fst (putGradient [stopNode ''0.5'', stopNode ''0.5''] gradientNode 0 ''axial''
      (linearCoords gradientNode) Map.empty \<lparr>prefix = [], idCounter = 0\<rparr>)) = Some (Num (1 / 4))
   \<and> gState (fst (putGradient [stopNode ''0.5'', stopNode ''0.5''] gradientNode 0 ''radial''
      (radialCoords gradientNode) Map.empty \<lparr>prefix = [], idCounter = 0\<rparr>)) = Some (Num (1 / 6))
   \<and> gState (fst (putGradient [stopNode ''1.0'', stopNode []] gradientNode 0 ''axial''
      (linearCoords gradientNode) Map.empty \<lparr>prefix = [], idCounter = 0\<rparr>)) = None"
  using gradient_opacity_by_coordinate_count
      [of "[stopNode ''0.5'', stopNode ''0.5'']" gradientNode 0 Map.empty "\<lparr>prefix = [], idCounter = 0\<rparr>"]
    gradient_opacity_by_coordinate_count
      [of "[stopNode ''1.0'', stopNode []]" gradientNode 0 Map.empty "\<lparr>prefix = [], idCounter = 0\<rparr>"]
  by (simp add: contributes_half contributes_full)


section \<open>Paths\<close>

text \<open>
  A path segment as \<open>getPathSegList\<close> builds it: the command letter and the coordinates
  the command has; a coordinate the command lacks is \<open>undefined\<close> (\<open>NaN\<close> here). The list is
  the array with \<open>getItem\<close> and \<open>numberOfItems\<close> of the source.
\<close>

record pathSeg =
  pathSegTypeAsLetter :: char
  seg_x :: jsnum
  seg_y :: jsnum
  seg_x1 :: jsnum
  seg_y1 :: jsnum
  seg_x2 :: jsnum
  seg_y2 :: jsnum

datatype error = TypeError

text \<open>\<open>list.getItem(i)\<close> is \<open>this[i]\<close>: \<open>undefined\<close> outside the array.\<close>

definition getItem :: "pathSeg list \<Rightarrow> nat \<Rightarrow> pathSeg option" where
  "getItem list i = (if i < length list then Some (list ! i) else None)"

text \<open>\<open>mirrorPoint\<close>: mirrors \<open>p1\<close> at \<open>p2\<close>.\<close>

definition mirrorPoint :: "point \<Rightarrow> point \<Rightarrow> point" where
  "mirrorPoint p1 p2 =
     (let dx = fst p2 - fst p1; dy = snd p2 - snd p1
      in (fst p1 + Num 2 * dx, snd p1 + Num 2 * dy))"

definition cToQ :: jsnum where
  "cToQ = Num (2 / 3)"

definition toCubic :: "point \<Rightarrow> point \<Rightarrow> point" where
  "toCubic from to = (cToQ * (fst to - fst from) + fst from, cToQ * (snd to - snd from) + snd from)"

text \<open>
  \<open>getControlPointFromPrevious\<close>. For \<open>i = 0\<close> the item read is \<open>undefined\<close> and is not
  looked at; for \<open>i > 0\<close> outside the list, reading its letter throws.
\<close>

definition getControlPointFromPrevious ::
  "nat \<Rightarrow> point \<Rightarrow> pathSeg list \<Rightarrow> jsnum \<Rightarrow> jsnum \<Rightarrow> error + point" where
  "getControlPointFromPrevious i from list prevX prevY =
     (if i > 0 then
        (case getItem list (i - 1) of
           None \<Rightarrow> Inl TypeError
         | Some prev \<Rightarrow>
            if pathSegTypeAsLetter prev = CHR ''C'' \<or> pathSegTypeAsLetter prev = CHR ''S''
            then Inr (mirrorPoint (seg_x2 prev, seg_y2 prev) from)
            else if pathSegTypeAsLetter prev = CHR ''c'' \<or> pathSegTypeAsLetter prev = CHR ''s''
            then Inr (mirrorPoint (seg_x2 prev + prevX, seg_y2 prev + prevY) from)
            else Inr from)
      else Inr from)"

subsection \<open>getLinesFromPath\<close>

text \<open>An entry of \<open>lines\<close>: the operator and its coordinates (none for \<open>h\<close>).\<close>

datatype pathOp = PathOp string "jsnum list"

text \<open>
  The variables of the loop. \<open>from\<close>, \<open>to\<close>, \<open>p2\<close>, \<open>p3\<close> and \<open>op\<close> are declared and not
  initialised; \<open>p\<close> is never declared, so it is a global that keeps its value from one
  path to the next. \<open>None\<close> is \<open>undefined\<close>.
\<close>

record pathVars =
  cur_x :: jsnum
  cur_y :: jsnum
  start_x0 :: jsnum
  start_y0 :: jsnum
  prevX :: jsnum
  prevY :: jsnum
  from_pt :: "point option"
  to_pt :: "point option"
  var_p2 :: "point option"
  var_p3 :: "point option"
  var_op :: "string option"
  lines :: "pathOp list"
  markers :: "matrix list"
  var_p :: "point option"

definition initVars :: "point option \<Rightarrow> pathVars" where
  "initVars p = \<lparr>cur_x = Num 0, cur_y = Num 0, start_x0 = Num 0, start_y0 = Num 0,
     prevX = NaN, prevY = NaN, from_pt = None, to_pt = None, var_p2 = None, var_p3 = None,
     var_op = None, lines = [], markers = [], var_p = p\<rparr>"

text \<open>\<open>Math.atan2\<close> on reals (the signs of zeros are not told apart).\<close>

definition atan2 :: "real \<Rightarrow> real \<Rightarrow> real" where
  "atan2 b a =
     (if a > 0 then arctan (b / a)
      else if a < 0 \<and> b \<ge> 0 then arctan (b / a) + pi
      else if a < 0 then arctan (b / a) - pi
      else if b > 0 then pi / 2
      else if b < 0 then - pi / 2
      else 0)"

fun jsAtan2 :: "jsnum \<Rightarrow> jsnum \<Rightarrow> jsnum" where
  "jsAtan2 (Num b) (Num a) = Num (atan2 b a)"
| "jsAtan2 _ _ = NaN"

text \<open>\<open>"...".indexOf(cmd) >= 0\<close> for a command of one letter.\<close>

definition oneOf :: "char \<Rightarrow> string \<Rightarrow> bool" where
  "oneOf c s = (c \<in> set s)"

text \<open>The \<open>switch\<close> on the command.\<close>

definition switchCmd :: "nat \<Rightarrow> pathSeg list \<Rightarrow> pathSeg \<Rightarrow> pathVars \<Rightarrow> error + pathVars" where
  "switchCmd i list sg v =
    (let cmd = pathSegTypeAsLetter sg; x = cur_x v; y = cur_y v in
     if cmd = CHR ''M'' then
       Inr (v\<lparr>start_x0 := x, start_y0 := y, to_pt := Some (seg_x sg, seg_y sg), var_op := Some ''m''\<rparr>)
     else if cmd = CHR ''m'' then
       Inr (v\<lparr>start_x0 := x, start_y0 := y, to_pt := Some (seg_x sg + x, seg_y sg + y),
              var_op := Some ''m''\<rparr>)
     else if cmd = CHR ''L'' then
       Inr (v\<lparr>to_pt := Some (seg_x sg, seg_y sg), var_op := Some ''l''\<rparr>)
     else if cmd = CHR ''l'' then
       Inr (v\<lparr>to_pt := Some (seg_x sg + x, seg_y sg + y), var_op := Some ''l''\<rparr>)
     else if cmd = CHR ''H'' then
       Inr (v\<lparr>to_pt := Some (seg_x sg, y), var_op := Some ''l'', cur_x := seg_x sg\<rparr>)
     else if cmd = CHR ''h'' then
       Inr (v\<lparr>to_pt := Some (seg_x sg + x, y), var_op := Some ''l'', cur_x := seg_x sg + x\<rparr>)
     else if cmd = CHR ''V'' then
       Inr (v\<lparr>to_pt := Some (x, seg_y sg), var_op := Some ''l'', cur_y := seg_y sg\<rparr>)
     else if cmd = CHR ''v'' then
       Inr (v\<lparr>to_pt := Some (x, seg_y sg + y), var_op := Some ''l'', cur_y := seg_y sg + y\<rparr>)
     else if cmd = CHR ''C'' then
       Inr (v\<lparr>var_p2 := Some (seg_x1 sg, seg_y1 sg), var_p3 := Some (seg_x2 sg, seg_y2 sg),
              to_pt := Some (seg_x sg, seg_y sg)\<rparr>)
     else if cmd = CHR ''c'' then
       Inr (v\<lparr>var_p2 := Some (seg_x1 sg + x, seg_y1 sg + y),
              var_p3 := Some (seg_x2 sg + x, seg_y2 sg + y),
              to_pt := Some (seg_x sg + x, seg_y sg + y)\<rparr>)
     else if cmd = CHR ''S'' then
       (case getControlPointFromPrevious i (x, y) list (prevX v) (prevY v) of
          Inl e \<Rightarrow> Inl e
        | Inr q \<Rightarrow> Inr (v\<lparr>var_p2 := Some q, var_p3 := Some (seg_x2 sg, seg_y2 sg),
                          to_pt := Some (seg_x sg, seg_y sg)\<rparr>))
     else if cmd = CHR ''s'' then
       (case getControlPointFromPrevious i (x, y) list (prevX v) (prevY v) of
          Inl e \<Rightarrow> Inl e
        | Inr q \<Rightarrow> Inr (v\<lparr>var_p2 := Some q, var_p3 := Some (seg_x2 sg + x, seg_y2 sg + y),
                          to_pt := Some (seg_x sg + x, seg_y sg + y)\<rparr>))
     else if cmd = CHR ''Q'' then
       (let p = (seg_x1 sg, seg_y1 sg)
        in Inr (v\<lparr>var_p := Some p, var_p2 := Some (toCubic (x, y) p),
                  var_p3 := Some (toCubic (seg_x sg, seg_y sg) p),
                  to_pt := Some (seg_x sg, seg_y sg)\<rparr>))
     else if cmd = CHR ''q'' then
       (let p = (seg_x1 sg + x, seg_y1 sg + y)
        in Inr (v\<lparr>var_p := Some p, var_p2 := Some (toCubic (x, y) p),
                  var_p3 := Some (toCubic (x + seg_x sg, y + seg_y sg) p),
                  to_pt := Some (seg_x sg + x, seg_y sg + y)\<rparr>))
     else if cmd = CHR ''T'' then
       (case getControlPointFromPrevious i (x, y) list (prevX v) (prevY v) of
          Inl e \<Rightarrow> Inl e
        | Inr q \<Rightarrow>
           (case var_p v of
              None \<Rightarrow> Inl TypeError
            | Some p \<Rightarrow> Inr (v\<lparr>var_p2 := Some (toCubic (x, y) p),
                               var_p3 := Some (toCubic (seg_x sg, seg_y sg) p),
                               to_pt := Some (seg_x sg, seg_y sg)\<rparr>)))
     else if cmd = CHR ''t'' then
       (case getControlPointFromPrevious i (x, y) list (prevX v) (prevY v) of
          Inl e \<Rightarrow> Inl e
        | Inr p \<Rightarrow> Inr (v\<lparr>var_p := Some p, var_p2 := Some (toCubic (x, y) p),
                          var_p3 := Some (toCubic (x + seg_x sg, y + seg_y sg) p),
                          to_pt := Some (seg_x sg + x, seg_y sg + y)\<rparr>))
     else if cmd = CHR ''Z'' \<or> cmd = CHR ''z'' then
       Inr (v\<lparr>cur_x := start_x0 v, cur_y := start_y0 v, lines := lines v @ [PathOp ''h'' []]\<rparr>)
     else Inr v)"

text \<open>The entry pushed to \<open>lines\<close> after the \<open>switch\<close>.\<close>

definition pushLine :: "matrix \<Rightarrow> char \<Rightarrow> pathVars \<Rightarrow> error + pathVars" where
  "pushLine tfMatrix cmd v =
    (if oneOf cmd ''sScCqQtT'' then
       (case (var_p2 v, var_p3 v, to_pt v) of
          (Some p2, Some p3, Some to) \<Rightarrow>
            (let p2' = multVecMatrix p2 tfMatrix;
                 p3' = multVecMatrix p3 tfMatrix;
                 p = multVecMatrix to tfMatrix
             in Inr (v\<lparr>from_pt := Some p3, prevX := cur_x v, prevY := cur_y v,
                       var_p2 := Some p2', var_p3 := Some p3', var_p := Some p,
                       lines := lines v @ [PathOp ''c'' [fst p2', snd p2', fst p3', snd p3', fst p, snd p]]\<rparr>))
        | _ \<Rightarrow> Inl TypeError)
     else if oneOf cmd ''lLhHvVmM'' then
       (case (to_pt v, var_op v) of
          (Some to, Some op) \<Rightarrow>
            (let p = multVecMatrix to tfMatrix
             in Inr (v\<lparr>from_pt := Some (cur_x v, cur_y v), var_p := Some p,
                       lines := lines v @ [PathOp op [fst p, snd p]]\<rparr>))
        | _ \<Rightarrow> Inl TypeError)
     else Inr v)"

text \<open>The end marker, pushed at the last segment and before a move.\<close>

definition pushMarker :: "matrix \<Rightarrow> nat \<Rightarrow> pathSeg list \<Rightarrow> char \<Rightarrow> pathVars \<Rightarrow> error + pathVars" where
  "pushMarker tfMatrix i list cmd v =
    (if Suc i = length list
        \<or> (\<not> oneOf cmd ''mM''
            \<and> (case getItem list (i + 1) of None \<Rightarrow> False
                | Some nxt \<Rightarrow> oneOf (pathSegTypeAsLetter nxt) ''mM''))
     then (case (to_pt v, from_pt v) of
             (Some to, Some from) \<Rightarrow>
               (let a = jsAtan2 (snd to - snd from) (fst to - fst from);
                    tf = Matrix (jsCos a) (jsSin a) (- jsSin a) (jsCos a) (fst to) (snd to)
                in Inr (v\<lparr>markers := markers v @ [matrixMult tf tfMatrix]\<rparr>))
           | _ \<Rightarrow> Inl TypeError)
     else Inr v)"

text \<open>The current point moves at the end of the pass.\<close>

definition movePoint :: "pathSeg \<Rightarrow> pathVars \<Rightarrow> pathVars" where
  "movePoint sg v =
    (if oneOf (pathSegTypeAsLetter sg) ''MLCSQT''
     then v\<lparr>cur_x := seg_x sg, cur_y := seg_y sg\<rparr>
     else if oneOf (pathSegTypeAsLetter sg) ''mlcsqt''
     then v\<lparr>cur_x := seg_x sg + cur_x v, cur_y := seg_y sg + cur_y v\<rparr>
     else v)"

definition bindE :: "error + 'a \<Rightarrow> ('a \<Rightarrow> error + 'b) \<Rightarrow> error + 'b" where
  "bindE r f = (case r of Inl e \<Rightarrow> Inl e | Inr v \<Rightarrow> f v)"

definition segPass :: "matrix \<Rightarrow> pathSeg list \<Rightarrow> nat \<Rightarrow> pathVars \<Rightarrow> error + pathVars" where
  "segPass tfMatrix list i v =
    (case getItem list i of
       None \<Rightarrow> Inl TypeError
     | Some sg \<Rightarrow>
        bindE (switchCmd i list sg v) (\<lambda>v1.
        bindE (pushLine tfMatrix (pathSegTypeAsLetter sg) v1) (\<lambda>v2.
        bindE (pushMarker tfMatrix i list (pathSegTypeAsLetter sg) v2) (\<lambda>v3.
        Inr (movePoint sg v3)))))"

fun forPasses :: "(nat \<Rightarrow> pathVars \<Rightarrow> error + pathVars) \<Rightarrow> nat list \<Rightarrow> pathVars \<Rightarrow> error + pathVars" where
  "forPasses f [] v = Inr v"
| "forPasses f (i # is) v = bindE (f i v) (forPasses f is)"

text \<open>\<open>getLinesFromPath\<close>; \<open>p\<close> is the value the global has when the path starts.\<close>

definition getLinesFromPath :: "pathSeg list \<Rightarrow> matrix \<Rightarrow> point option \<Rightarrow> error + pathVars" where
  "getLinesFromPath list tfMatrix p =
     forPasses (segPass tfMatrix list) [0..<length list] (initVars p)"

definition mkSeg :: "char \<Rightarrow> jsnum list \<Rightarrow> pathSeg" where
  "mkSeg c cs = \<lparr>pathSegTypeAsLetter = c, seg_x = item cs 0, seg_y = item cs 1, seg_x1 = item cs 2,
     seg_y1 = item cs 3, seg_x2 = item cs 4, seg_y2 = item cs 5\<rparr>"

definition quadThenSmooth :: "pathSeg list" where
  "quadThenSmooth =
     [mkSeg CHR ''M'' [Num 0, Num 0],
      mkSeg CHR ''Q'' [Num 10, Num 0, Num 5, Num 10],
      mkSeg CHR ''t'' [Num 10, Num 0]]"

lemmas path_eval = getLinesFromPath_def segPass_def bindE_def switchCmd_def pushLine_def
  pushMarker_def movePoint_def getControlPointFromPrevious_def getItem_def oneOf_def
  mirrorPoint_def toCubic_def cToQ_def initVars_def mkSeg_def atan2_def Let_def


subsection \<open>The implicit control point of a smooth segment\<close>

lemma mirrorPoint_reflection:
  "mirrorPoint (Num a, Num b) (Num c, Num d) = (Num (2 * c - a), Num (2 * d - b))"
  by (simp add: mirrorPoint_def Let_def)

text \<open>After a cubic segment (C, S, c, s) the point returned is the reflection of its second
  control point; after any other segment, and at index 0, it is the current point.\<close>

lemma control_point_after_absolute_cubic:
  assumes "0 < i" and "getItem list (i - 1) = Some prev"
    and "pathSegTypeAsLetter prev = CHR ''C'' \<or> pathSegTypeAsLetter prev = CHR ''S''"
  shows "getControlPointFromPrevious i from list px py
         = Inr (mirrorPoint (seg_x2 prev, seg_y2 prev) from)"
  using assms by (auto simp: getControlPointFromPrevious_def)

lemma control_point_after_relative_cubic:
  assumes "0 < i" and "getItem list (i - 1) = Some prev"
    and "pathSegTypeAsLetter prev = CHR ''c'' \<or> pathSegTypeAsLetter prev = CHR ''s''"
  shows "getControlPointFromPrevious i from list px py
         = Inr (mirrorPoint (seg_x2 prev + px, seg_y2 prev + py) from)"
  using assms by (auto simp: getControlPointFromPrevious_def)

lemma control_point_otherwise:
  assumes "i = 0 \<or> (getItem list (i - 1) = Some prev
      \<and> \<not> oneOf (pathSegTypeAsLetter prev) ''CScs'')"
  shows "getControlPointFromPrevious i from list px py = Inr from"
  using assms by (auto simp: getControlPointFromPrevious_def oneOf_def)

text \<open>In particular a quadratic predecessor (Q, q, T, t) is never reflected.\<close>

lemma control_point_after_quadratic:
  assumes "0 < i" and "getItem list (i - 1) = Some prev"
    and "oneOf (pathSegTypeAsLetter prev) ''QqTt''"
  shows "getControlPointFromPrevious i from list px py = Inr from"
  using assms by (auto simp: getControlPointFromPrevious_def oneOf_def)

text \<open>
  C3. The claim: the implicit control point of a smooth segment is the reflection of the
  second control point of segment \<open>i - 1\<close> exactly when that segment is of the same
  family, the family of T and t being Q and T. \<open>getControlPointFromPrevious\<close>, which the
  source documents as being for t, T, s and S, looks for the letters C, S, c and s only.
  On the path \<open>M 0,0 Q 5,10 10,0 t 10,0\<close> the segment before \<open>t\<close> is of its family, its
  control point is (5,10) and the current point is (10,0), so the claim asks for the
  reflection (15,-10); the code returns the current point (10,0), and the curve emitted
  for \<open>t\<close> has the control points (10,0) and (40/3,0): a straight line.
\<close>

theorem smooth_quadratic_not_reflected:
  "getControlPointFromPrevious 2 (Num 10, Num 0) quadThenSmooth (Num 0) (Num 0)
     = Inr (Num 10, Num 0)
   \<and> mirrorPoint (Num 5, Num 10) (Num 10, Num 0) = (Num 15, Num (- 10))
   \<and> map_sum id lines (getLinesFromPath quadThenSmooth unitMatrix None)
     = Inr [PathOp ''m'' [Num 0, Num 0],
            PathOp ''c'' [Num (10 / 3), Num (20 / 3), Num (20 / 3), Num (20 / 3), Num 10, Num 0],
            PathOp ''c'' [Num 10, Num 0, Num (40 / 3), Num 0, Num 20, Num 0]]"
  by (simp add: quadThenSmooth_def path_eval item_def mat_eval upt_rec)

text \<open>The absolute command T does not use the point it asks for: it takes the global \<open>p\<close>,
  which holds the transformed end point of the segment before, and throws when \<open>p\<close> was
  never set.\<close>

lemma smooth_T_uses_stale_p:
  "map_sum id lines (getLinesFromPath
      [mkSeg CHR ''M'' [Num 0, Num 0], mkSeg CHR ''Q'' [Num 10, Num 0, Num 5, Num 10],
       mkSeg CHR ''T'' [Num 20, Num 0]] unitMatrix None)
     = Inr [PathOp ''m'' [Num 0, Num 0],
            PathOp ''c'' [Num (10 / 3), Num (20 / 3), Num (20 / 3), Num (20 / 3), Num 10, Num 0],
            PathOp ''c'' [Num 10, Num 0, Num (40 / 3), Num 0, Num 20, Num 0]]"
  by (simp add: path_eval item_def mat_eval upt_rec)

lemma smooth_T_first_throws:
  "getLinesFromPath [mkSeg CHR ''T'' [Num 20, Num 0]] unitMatrix None = Inl TypeError"
  by (simp add: path_eval item_def mat_eval upt_rec)

text \<open>After a cubic segment the smooth cubic command reflects, as the claim says.\<close>

lemma smooth_cubic_reflected:
  "map_sum id lines (getLinesFromPath
      [mkSeg CHR ''M'' [Num 0, Num 0],
       mkSeg CHR ''C'' [Num 10, Num 0, Num 0, Num 10, Num 5, Num 10],
       mkSeg CHR ''S'' [Num 20, Num 0, NaN, NaN, Num 20, Num 10]] unitMatrix None)
     = Inr [PathOp ''m'' [Num 0, Num 0],
            PathOp ''c'' [Num 0, Num 10, Num 5, Num 10, Num 10, Num 0],
            PathOp ''c'' [Num 15, Num (- 10), Num 20, Num 10, Num 20, Num 0]]"
  by (simp add: path_eval item_def mat_eval upt_rec)


end
